theory Spec2Isabelle
  imports Complex_Main
begin

section \<open>The dataset: a pandas DataFrame\<close>

text \<open>
  \<^verbatim>\<open>EDAModule.py\<close> holds one class, \<^verbatim>\<open>ExploratoryDataAnalysis\<close>, whose methods pass a
  pandas DataFrame to pandas, matplotlib and seaborn. The class is embedded method by
  method; the library calls it makes are embedded as far as the class observes them.

  A DataFrame is an index (one label per row) and an ordered list of columns; a column
  has a label, a dtype and one value per row. Column labels may repeat, as pandas allows.
  The dtypes are the numpy integer, floating-point and boolean dtypes, \<^verbatim>\<open>object\<close> and
  \<^verbatim>\<open>category\<close>; datetime, timedelta, complex and the extension dtypes are left out.
  A value is missing (\<^verbatim>\<open>None\<close> or \<^verbatim>\<open>NaN\<close>), an integer, a finite float (mantissa and
  binary exponent), an infinity, a string or a boolean.
\<close>

datatype np_dtype =
    Int8 | Int16 | Int32 | Int64
  | UInt8 | UInt16 | UInt32 | UInt64
  | Float16 | Float32 | Float64
  | Bool | Object | Category

datatype cell = NA | IntV int | FloatV int int | PosInf | NegInf | StrV string | BoolV bool

record column =
  name :: string
  dtype :: np_dtype
  "values" :: "cell list"

record dataframe =
  index :: "int list"
  columns :: "column list"

text \<open>Every column of a DataFrame holds one value per index entry.\<close>

definition wf_frame :: "dataframe \<Rightarrow> bool" where
  "wf_frame df = list_all (\<lambda>c. length (values c) = length (index df)) (columns df)"

text \<open>Row \<open>i\<close> of a frame, and the frame read row by row.\<close>

definition row_at :: "dataframe \<Rightarrow> nat \<Rightarrow> cell list" where
  "row_at df i = map (\<lambda>c. values c ! i) (columns df)"

definition rows :: "dataframe \<Rightarrow> cell list list" where
  "rows df = map (row_at df) [0..<length (index df)]"

text \<open>The exception classes the class can meet.\<close>

datatype exc_class =
    AttributeError | IndexError | ValueError | TypeError
  | ImportError | ModuleNotFoundError | FileNotFoundError | OtherException
  | KeyboardInterrupt | SystemExit

section \<open>The pandas calls of the query methods\<close>

text \<open>\<^verbatim>\<open>DataFrame.shape\<close> is \<^verbatim>\<open>(len(index), len(columns))\<close>; \<^verbatim>\<open>DataFrame.size\<close> is the
  product of the shape.\<close>

definition df_shape :: "dataframe \<Rightarrow> nat \<times> nat" where
  "df_shape df = (length (index df), length (columns df))"

definition df_size :: "dataframe \<Rightarrow> nat" where
  "df_size df = (case df_shape df of (r, c) \<Rightarrow> r * c)"

text \<open>\<^verbatim>\<open>DataFrame.head(n)\<close> is \<^verbatim>\<open>iloc[:n]\<close>: for \<open>n \<ge> 0\<close> the first \<open>n\<close> index entries and
  the first \<open>n\<close> values of every column; a slice past the end is cut, not an error.\<close>

definition df_head :: "nat \<Rightarrow> dataframe \<Rightarrow> dataframe" where
  "df_head n df =
     df\<lparr>index := take n (index df),
        columns := map (\<lambda>c. c\<lparr>values := take n (values c)\<rparr>) (columns df)\<rparr>"

text \<open>\<^verbatim>\<open>DataFrame.columns\<close> and \<^verbatim>\<open>DataFrame.dtypes\<close>.\<close>

definition df_columns :: "dataframe \<Rightarrow> string list" where
  "df_columns df = map name (columns df)"

definition df_dtypes :: "dataframe \<Rightarrow> (string \<times> np_dtype) list" where
  "df_dtypes df = map (\<lambda>c. (name c, dtype c)) (columns df)"

text \<open>\<^verbatim>\<open>isnull\<close> marks \<^verbatim>\<open>None\<close> and \<^verbatim>\<open>NaN\<close>; an infinity is not missing. It returns a
  frame of booleans with the same index and labels. \<^verbatim>\<open>sum\<close> of a boolean frame gives,
  per column, the number of \<^verbatim>\<open>True\<close> entries, as a Series in column order.\<close>

definition isna :: "cell \<Rightarrow> bool" where
  "isna v = (v = NA)"

definition df_isnull :: "dataframe \<Rightarrow> dataframe" where
  "df_isnull df =
     df\<lparr>columns := map (\<lambda>c. c\<lparr>dtype := Bool, values := map (\<lambda>v. BoolV (isna v)) (values c)\<rparr>)
                       (columns df)\<rparr>"

definition bool_sum :: "cell list \<Rightarrow> nat" where
  "bool_sum vs = length (filter (\<lambda>v. v = BoolV True) vs)"

definition df_sum :: "dataframe \<Rightarrow> (string \<times> nat) list" where
  "df_sum df = map (\<lambda>c. (name c, bool_sum (values c))) (columns df)"

text \<open>\<^verbatim>\<open>select_dtypes(include=[...])\<close> keeps the columns whose dtype is one of the listed
  ones, in column order. The listed names are concrete dtypes (\<^verbatim>\<open>'float64'\<close>,
  \<^verbatim>\<open>'int64'\<close>, \<^verbatim>\<open>'object'\<close>, \<^verbatim>\<open>'category'\<close>), so a column matches when its dtype is
  the same: \<^verbatim>\<open>int32\<close> is not \<^verbatim>\<open>int64\<close>.\<close>

definition select_dtypes :: "np_dtype list \<Rightarrow> dataframe \<Rightarrow> dataframe" where
  "select_dtypes include df = df\<lparr>columns := filter (\<lambda>c. dtype c \<in> set include) (columns df)\<rparr>"

section \<open>The class\<close>

text \<open>An instance has the attribute \<^verbatim>\<open>dataset\<close> from \<^verbatim>\<open>__init__\<close>; the attribute
  \<^verbatim>\<open>description\<close> exists only once \<^verbatim>\<open>setDescription\<close> has assigned it.\<close>

record inspector =
  dataset :: dataframe
  description :: "string option"

definition init :: "dataframe \<Rightarrow> inspector" where
  "init df = \<lparr>dataset = df, description = None\<rparr>"

definition setDescription :: "inspector \<Rightarrow> string \<Rightarrow> inspector" where
  "setDescription self d = self\<lparr>description := Some d\<rparr>"

definition getDescription :: "inspector \<Rightarrow> exc_class + string" where
  "getDescription self =
     (case description self of None \<Rightarrow> Inl AttributeError | Some d \<Rightarrow> Inr d)"

definition getShape :: "inspector \<Rightarrow> nat \<times> nat" where
  "getShape self = df_shape (dataset self)"

definition getSize :: "inspector \<Rightarrow> nat" where
  "getSize self = df_size (dataset self)"

definition getHead :: "inspector \<Rightarrow> dataframe" where
  "getHead self = df_head 5 (dataset self)"

definition getColumns :: "inspector \<Rightarrow> string list" where
  "getColumns self = df_columns (dataset self)"

definition getTypes :: "inspector \<Rightarrow> (string \<times> np_dtype) list" where
  "getTypes self = df_dtypes (dataset self)"

definition getNulls :: "inspector \<Rightarrow> (string \<times> nat) list" where
  "getNulls self = df_sum (df_isnull (dataset self))"

definition get_numeric_columns :: "inspector \<Rightarrow> string list" where
  "get_numeric_columns self = df_columns (select_dtypes [Float64, Int64] (dataset self))"

definition get_categorical_columns :: "inspector \<Rightarrow> string list" where
  "get_categorical_columns self = df_columns (select_dtypes [Object, Category] (dataset self))"

text \<open>The dataset of the example in the specification: three rows, \<^verbatim>\<open>a=[1,2,2]\<close> and
  \<^verbatim>\<open>b=["x","y","y"]\<close>.\<close>

definition example_frame :: dataframe where
  "example_frame =
     \<lparr>index = [0, 1, 2],
      columns = [\<lparr>name = ''a'', dtype = Int64, values = [IntV 1, IntV 2, IntV 2]\<rparr>,
                 \<lparr>name = ''b'', dtype = Object, values = [StrV ''x'', StrV ''y'', StrV ''y'']\<rparr>]\<rparr>"

section \<open>The column classes of the specification\<close>

text \<open>The glossary of the specification: a numeric column has a floating-point or integer
  type, a categorical column the object or the category type. These two predicates follow
  the specification's words; \<open>get_numeric_columns\<close> and \<open>get_categorical_columns\<close> above
  follow the code.\<close>

definition spec_numeric :: "np_dtype \<Rightarrow> bool" where
  "spec_numeric d =
     (d \<in> {Int8, Int16, Int32, Int64, UInt8, UInt16, UInt32, UInt64, Float16, Float32, Float64})"

definition spec_categorical :: "np_dtype \<Rightarrow> bool" where
  "spec_categorical d = (d \<in> {Object, Category})"

text \<open>A frame with an \<^verbatim>\<open>int64\<close> and an \<^verbatim>\<open>object\<close> column of the same label, and a
  \<^verbatim>\<open>uint64\<close> column (the dtype pandas infers for an integer from \<open>2^63\<close> on).\<close>

definition wide_frame :: dataframe where
  "wide_frame =
     \<lparr>index = [0],
      columns = [\<lparr>name = ''a'', dtype = Int64, values = [IntV 1]\<rparr>,
                 \<lparr>name = ''a'', dtype = Object, values = [StrV ''x'']\<rparr>,
                 \<lparr>name = ''n'', dtype = UInt64, values = [IntV 9223372036854775808]\<rparr>]\<rparr>"

text \<open>A frame with distinct labels: a \<^verbatim>\<open>uint64\<close> column, a \<^verbatim>\<open>float32\<close> column and an
  \<^verbatim>\<open>object\<close> column.\<close>

definition narrow_frame :: dataframe where
  "narrow_frame =
     \<lparr>index = [0, 1],
      columns = [\<lparr>name = ''u'', dtype = UInt64, values = [IntV 9223372036854775808, IntV 1]\<rparr>,
                 \<lparr>name = ''f'', dtype = Float32, values = [FloatV 3 (- 1), FloatV 1 0]\<rparr>,
                 \<lparr>name = ''s'', dtype = Object, values = [StrV ''x'', StrV ''y'']\<rparr>]\<rparr>"

text \<open>A frame of seven rows whose last two values are missing.\<close>

definition seven_frame :: dataframe where
  "seven_frame =
     \<lparr>index = [0, 1, 2, 3, 4, 5, 6],
      columns = [\<lparr>name = ''a'', dtype = Float64,
                  values = [FloatV 1 0, FloatV 1 1, FloatV 3 0, FloatV 1 2, FloatV 5 0, NA, NA]\<rparr>]\<rparr>"

section \<open>The chart grids\<close>

text \<open>
  \<^verbatim>\<open>getBoxplots\<close>, \<^verbatim>\<open>getHistograms\<close> and \<^verbatim>\<open>plot_bar_charts_categorical_columns\<close> have
  the same body but for the column list and the chart drawn. An axes of matplotlib is
  modelled by what the methods do to it: the chart drawn into it, its title, and whether
  its axis is on. Drawing a chart into an axes is taken to succeed; what is modelled is
  the layout. The drawing calls of the libraries can raise (a histogram asked for with
  no bin, a bar chart of a column without a value, a label that repeats, so that
  \<^verbatim>\<open>self.dataset[variable]\<close> is a frame); the lemmas on the layout below are about the
  calls in which they do not.
\<close>

datatype chart = BoxPlot string | Hist string int | Bar string

record axes =
  drawn :: "chart option"
  title :: "string option"
  axis_on :: bool

definition blank_axes :: axes where
  "blank_axes = \<lparr>drawn = None, title = None, axis_on = True\<rparr>"

text \<open>
  \<^verbatim>\<open>plt.subplots(nrows, ncols)\<close> is called with its default \<^verbatim>\<open>squeeze=True\<close>: it returns
  one Axes object for a 1 x 1 grid, a one-dimensional array for a grid of one row or one
  column, and a two-dimensional array otherwise. A grid of zero rows or columns is
  refused with \<^verbatim>\<open>ValueError\<close>.
\<close>

datatype axes_array = AxesObject axes | Axes1D "axes list" | Axes2D "axes list list"

definition plt_subplots :: "nat \<Rightarrow> nat \<Rightarrow> exc_class + axes_array" where
  "plt_subplots nrows ncols =
     (if nrows = 0 \<or> ncols = 0 then Inl ValueError
      else if nrows = 1 \<and> ncols = 1 then Inr (AxesObject blank_axes)
      else if nrows = 1 then Inr (Axes1D (replicate ncols blank_axes))
      else if ncols = 1 then Inr (Axes1D (replicate nrows blank_axes))
      else Inr (Axes2D (replicate nrows (replicate ncols blank_axes))))"

text \<open>
  \<^verbatim>\<open>axs[i, j]\<close>: an Axes object has no \<^verbatim>\<open>__getitem__\<close> (\<^verbatim>\<open>TypeError\<close>); a
  one-dimensional array indexed with two indices raises \<^verbatim>\<open>IndexError\<close>, as does an
  index out of range. \<open>axs_set\<close> stores the axes that a method call has changed.
\<close>

fun axs_get :: "axes_array \<Rightarrow> nat \<Rightarrow> nat \<Rightarrow> exc_class + axes" where
  "axs_get (AxesObject a) i j = Inl TypeError"
| "axs_get (Axes1D as) i j = Inl IndexError"
| "axs_get (Axes2D g) i j =
     (if i < length g \<and> j < length (g ! i) then Inr (g ! i ! j) else Inl IndexError)"

fun axs_set :: "axes_array \<Rightarrow> nat \<Rightarrow> nat \<Rightarrow> axes \<Rightarrow> axes_array" where
  "axs_set (Axes2D g) i j a = Axes2D (g[i := (g ! i)[j := a]])"
| "axs_set arr i j a = arr"

text \<open>
  \<^verbatim>\<open>math.ceil(len(cols) / num_cols)\<close>: the true quotient, rounded up.
\<close>

definition math_ceil_div :: "nat \<Rightarrow> nat \<Rightarrow> nat" where
  "math_ceil_div n d = nat \<lceil>real n / real d\<rceil>"

text \<open>
  The body of the inner loop at grid cell \<open>(i, j)\<close>; the state is the array of axes and
  \<^verbatim>\<open>variable_index\<close>. \<open>mk\<close> is the chart of the method.
\<close>

definition plot_cell ::
  "(string \<Rightarrow> chart) \<Rightarrow> string list \<Rightarrow> nat \<Rightarrow> nat \<Rightarrow> axes_array \<times> nat
     \<Rightarrow> exc_class + axes_array \<times> nat" where
  "plot_cell mk variables i j st =
     (case st of (axs, variable_index) \<Rightarrow>
        if variable_index < length variables then
          (let variable = variables ! variable_index in
           case axs_get axs i j of
             Inl e \<Rightarrow> Inl e
           | Inr a \<Rightarrow>
               Inr (axs_set axs i j (a\<lparr>drawn := Some (mk variable), title := Some variable\<rparr>),
                    variable_index + 1))
        else
          (case axs_get axs i j of
             Inl e \<Rightarrow> Inl e
           | Inr a \<Rightarrow> Inr (axs_set axs i j (a\<lparr>axis_on := False\<rparr>), variable_index)))"

text \<open>\<^verbatim>\<open>for j in range(num_cols)\<close> and \<^verbatim>\<open>for i in range(num_rows)\<close>: the first exception
  ends the loops.\<close>

fun plot_row ::
  "(string \<Rightarrow> chart) \<Rightarrow> string list \<Rightarrow> nat \<Rightarrow> nat list \<Rightarrow> axes_array \<times> nat
     \<Rightarrow> exc_class + axes_array \<times> nat" where
  "plot_row mk variables i [] st = Inr st"
| "plot_row mk variables i (j # js) st =
     (case plot_cell mk variables i j st of
        Inl e \<Rightarrow> Inl e
      | Inr st' \<Rightarrow> plot_row mk variables i js st')"

fun plot_rows ::
  "(string \<Rightarrow> chart) \<Rightarrow> string list \<Rightarrow> nat \<Rightarrow> nat list \<Rightarrow> axes_array \<times> nat
     \<Rightarrow> exc_class + axes_array \<times> nat" where
  "plot_rows mk variables num_cols [] st = Inr st"
| "plot_rows mk variables num_cols (i # is) st =
     (case plot_row mk variables i [0..<num_cols] st of
        Inl e \<Rightarrow> Inl e
      | Inr st' \<Rightarrow> plot_rows mk variables num_cols is st')"

text \<open>The common body: the grid is made, filled, and shown. The result is the figure
  shown (the methods themselves return \<^verbatim>\<open>None\<close>).\<close>

definition chart_grid :: "(string \<Rightarrow> chart) \<Rightarrow> string list \<Rightarrow> exc_class + axes_array" where
  "chart_grid mk variables =
     (let num_cols = 3;
          num_rows = math_ceil_div (length variables) num_cols
      in case plt_subplots num_rows num_cols of
           Inl e \<Rightarrow> Inl e
         | Inr axs \<Rightarrow>
             (case plot_rows mk variables num_cols [0..<num_rows] (axs, 0) of
                Inl e \<Rightarrow> Inl e
              | Inr st \<Rightarrow> Inr (fst st)))"

definition getBoxplots :: "inspector \<Rightarrow> exc_class + axes_array" where
  "getBoxplots self = chart_grid BoxPlot (get_numeric_columns self)"

definition getHistograms :: "inspector \<Rightarrow> int \<Rightarrow> exc_class + axes_array" where
  "getHistograms self nBins = chart_grid (\<lambda>v. Hist v nBins) (get_numeric_columns self)"

definition plot_bar_charts_categorical_columns :: "inspector \<Rightarrow> exc_class + axes_array" where
  "plot_bar_charts_categorical_columns self = chart_grid Bar (get_categorical_columns self)"

text \<open>
  What the loops are to leave behind. \<open>final_axes\<close> is cell \<open>k\<close> (in row-major order)
  of a finished grid: the chart and title of column \<open>k\<close> when there is one, a hidden
  axes otherwise. \<open>grid_after\<close> is the grid once the first \<open>m\<close> cells have been visited,
  \<open>filled_grid\<close> the grid once all have.
\<close>

definition final_axes :: "(string \<Rightarrow> chart) \<Rightarrow> string list \<Rightarrow> nat \<Rightarrow> axes" where
  "final_axes mk variables k =
     (if k < length variables
      then \<lparr>drawn = Some (mk (variables ! k)), title = Some (variables ! k), axis_on = True\<rparr>
      else \<lparr>drawn = None, title = None, axis_on = False\<rparr>)"

definition grid_after ::
  "(string \<Rightarrow> chart) \<Rightarrow> string list \<Rightarrow> nat \<Rightarrow> nat \<Rightarrow> nat \<Rightarrow> axes list list" where
  "grid_after mk variables num_rows num_cols m =
     map (\<lambda>i. map (\<lambda>j. if i * num_cols + j < m then final_axes mk variables (i * num_cols + j)
                          else blank_axes) [0..<num_cols]) [0..<num_rows]"

definition filled_grid :: "(string \<Rightarrow> chart) \<Rightarrow> string list \<Rightarrow> nat \<Rightarrow> nat \<Rightarrow> axes list list" where
  "filled_grid mk variables num_rows num_cols =
     map (\<lambda>i. map (\<lambda>j. final_axes mk variables (i * num_cols + j)) [0..<num_cols]) [0..<num_rows]"

section \<open>The correlation matrix\<close>

text \<open>
  \<^verbatim>\<open>DataFrame.corr()\<close> converts the frame to an array of floats
  (\<^verbatim>\<open>to_numpy(dtype=float)\<close>) and correlates its columns; the result is a square frame
  labelled by the columns on both sides. The entries are floating-point numbers and are
  not modelled: the model keeps the labels. A value converts to a float when it is
  missing, a number or a boolean, or a string that \<^verbatim>\<open>float()\<close> reads; otherwise the
  conversion raises \<^verbatim>\<open>ValueError\<close>.

  \<^verbatim>\<open>float()\<close> strips white space, takes a sign, and then reads \<^verbatim>\<open>inf\<close>,
  \<^verbatim>\<open>infinity\<close> or \<^verbatim>\<open>nan\<close> in any case, or a decimal number: digits (single underscores
  between digits allowed), a point, an exponent. A string is a list of bytes here, and
  the white space and the digits read are the ASCII ones; \<^verbatim>\<open>float()\<close> also takes the
  white space and the decimal digits of other scripts. An integer too large for a float
  (\<open>2^1024\<close> or more, which only an \<^verbatim>\<open>object\<close> column can hold) is not told apart.
\<close>

definition ascii_text :: "string \<Rightarrow> bool" where
  "ascii_text s = list_all (\<lambda>c. (of_char c :: nat) < 128) s"

text \<open>The readers of the parts of a number: each gives what is left of the string, or
  nothing when the part is malformed.\<close>

definition is_digit :: "char \<Rightarrow> bool" where
  "is_digit c = (c \<in> set ''0123456789'')"

definition is_space :: "char \<Rightarrow> bool" where
  "is_space c = (c \<in> {CHR '' '', CHR 0x09, CHR 0x0A, CHR 0x0B, CHR 0x0C, CHR 0x0D})"

definition strip :: "string \<Rightarrow> string" where
  "strip s = rev (dropWhile is_space (rev (dropWhile is_space s)))"

definition lower :: "char \<Rightarrow> char" where
  "lower c = (case map_of (zip ''INFTYA'' ''inftya'') c of Some d \<Rightarrow> d | None \<Rightarrow> c)"

fun digits_tail :: "string \<Rightarrow> string" where
  "digits_tail [] = []"
| "digits_tail [c] = (if is_digit c then [] else [c])"
| "digits_tail (c # d # cs) =
     (if is_digit c then digits_tail (d # cs)
      else if c = CHR ''_'' \<and> is_digit d then digits_tail (d # cs)
      else c # d # cs)"

definition digitpart :: "string \<Rightarrow> string option" where
  "digitpart s =
     (case s of [] \<Rightarrow> None | c # cs \<Rightarrow> if is_digit c then Some (digits_tail cs) else None)"

definition drop_sign :: "string \<Rightarrow> string" where
  "drop_sign s = (case s of [] \<Rightarrow> [] | c # cs \<Rightarrow> if c = CHR ''+'' \<or> c = CHR ''-'' then cs else s)"

definition exponent_opt :: "string \<Rightarrow> string option" where
  "exponent_opt s =
     (case s of
        [] \<Rightarrow> Some []
      | c # cs \<Rightarrow> if c = CHR ''e'' \<or> c = CHR ''E'' then digitpart (drop_sign cs) else Some s)"

definition float_number :: "string \<Rightarrow> string option" where
  "float_number s =
     (case digitpart s of
        Some r \<Rightarrow>
          (case r of
             [] \<Rightarrow> Some []
           | c # r' \<Rightarrow>
               if c = CHR ''.'' then
                 (case digitpart r' of Some r'' \<Rightarrow> exponent_opt r'' | None \<Rightarrow> exponent_opt r')
               else exponent_opt r)
      | None \<Rightarrow>
          (case s of
             [] \<Rightarrow> None
           | c # r \<Rightarrow>
               if c = CHR ''.'' then
                 (case digitpart r of Some r' \<Rightarrow> exponent_opt r' | None \<Rightarrow> None)
               else None))"

definition py_float_reads :: "string \<Rightarrow> bool" where
  "py_float_reads s =
     (let t = drop_sign (strip s)
      in map lower t \<in> {''inf'', ''infinity'', ''nan''} \<or> float_number t = Some [])"

fun float_convertible :: "cell \<Rightarrow> bool" where
  "float_convertible (StrV s) = py_float_reads s"
| "float_convertible v = True"

text \<open>
  \<^verbatim>\<open>corr\<close> has the parameter \<^verbatim>\<open>numeric_only\<close>: when it is set, the frame is first cut
  down to its numeric data (the columns of an integer, floating-point or boolean dtype).
  The method calls \<^verbatim>\<open>self.dataset.corr()\<close> without arguments, so the default decides,
  and the default depends on the pandas release: before 2.0 the non-numeric columns were
  dropped, from 2.0 on \<^verbatim>\<open>numeric_only\<close> defaults to \<^verbatim>\<open>False\<close>. \<^verbatim>\<open>setup.py\<close> requires
  \<^verbatim>\<open>pandas\<close> without a version.
\<close>

datatype pandas_release = Before_2_0 | From_2_0

definition corr_default_numeric_only :: "pandas_release \<Rightarrow> bool" where
  "corr_default_numeric_only p = (p = Before_2_0)"

definition get_numeric_data :: "dataframe \<Rightarrow> dataframe" where
  "get_numeric_data df =
     df\<lparr>columns := filter (\<lambda>c. dtype c \<in> {Int8, Int16, Int32, Int64, UInt8, UInt16, UInt32,
                                          UInt64, Float16, Float32, Float64, Bool})
                       (columns df)\<rparr>"

definition corr :: "bool \<Rightarrow> dataframe \<Rightarrow> exc_class + string list" where
  "corr numeric_only df =
     (let data = (if numeric_only then get_numeric_data df else df)
      in if list_all (\<lambda>c. list_all float_convertible (values c)) (columns data)
         then Inr (df_columns data)
         else Inl ValueError)"

text \<open>
  \<^verbatim>\<open>sns.heatmap\<close> takes the smallest and largest entry of the matrix for its colour
  scale, which raises \<^verbatim>\<open>ValueError\<close> on a matrix without entries. A figure shown is a
  chart grid or a heat map (annotated, titled \<^verbatim>\<open>Correlation Matrix\<close>) over the labels
  of the matrix.
\<close>

datatype figure = Grid axes_array | HeatMap "string list"

definition sns_heatmap :: "string list \<Rightarrow> exc_class + figure" where
  "sns_heatmap labels = (if labels = [] then Inl ValueError else Inr (HeatMap labels))"

definition getCorrelationMatrix :: "pandas_release \<Rightarrow> inspector \<Rightarrow> exc_class + figure" where
  "getCorrelationMatrix pandas self =
     (case corr (corr_default_numeric_only pandas) (dataset self) of
        Inl e \<Rightarrow> Inl e
      | Inr correlation_matrix \<Rightarrow> sns_heatmap correlation_matrix)"

text \<open>A column is typed when it has the object or category dtype, or holds no string: a
  column of a numeric or boolean dtype cannot hold one.\<close>

fun is_text :: "cell \<Rightarrow> bool" where
  "is_text (StrV s) = True"
| "is_text v = False"

definition typed_column :: "column \<Rightarrow> bool" where
  "typed_column c = (dtype c \<in> {Object, Category} \<or> list_all (\<lambda>v. \<not> is_text v) (values c))"

section \<open>The automatic reports and the effects of the methods\<close>

text \<open>
  What a method can change besides the instance: the files of the working directory, the
  lines printed, and the figures shown. A CSV file written by \<^verbatim>\<open>to_csv\<close> is kept as its
  header and its records, not as text.
\<close>

datatype file_content = Csv "string list" "cell list list" | Text string

record world =
  files :: "string \<Rightarrow> file_content option"
  stdout :: "string list"
  shown :: "figure list"

definition print :: "string \<Rightarrow> world \<Rightarrow> world" where
  "print line w = w\<lparr>stdout := stdout w @ [line]\<rparr>"

definition plt_show :: "figure \<Rightarrow> world \<Rightarrow> world" where
  "plt_show fig w = w\<lparr>shown := shown w @ [fig]\<rparr>"

text \<open>\<^verbatim>\<open>to_csv(csv_filename, index=False)\<close> creates the file or replaces its content with
  the column labels and the rows, without the index.\<close>

definition to_csv :: "dataframe \<Rightarrow> string \<Rightarrow> world \<Rightarrow> world" where
  "to_csv df path w = w\<lparr>files := (files w)(path \<mapsto> Csv (df_columns df) (rows df))\<rparr>"

text \<open>
  What the methods do not decide is given by the environment: the pandas release, and
  for each statement that reaches outside the class (an import, the call of
  \<^verbatim>\<open>pip\<close>, the report generators) whether it raises, with the class and the text of
  the exception. \<^verbatim>\<open>subprocess.run\<close> is called without \<^verbatim>\<open>check\<close>, so it raises only
  when \<^verbatim>\<open>pip\<close> cannot be started; a failed installation shows in the import after it.
  The report generators are taken by their interface: they read the dataset or the
  file they are given.
\<close>

type_synonym exn = "exc_class \<times> string"

record env =
  pandas :: pandas_release
  import_sweetviz :: "exn option"
  pip_install_sweetviz :: "exn option"
  from_sweetviz_import_sv :: "exn option"
  sweetviz_report :: "dataframe \<Rightarrow> exc_class option"
  import_autoviz :: "exn option"
  pip_install_autoviz :: "exn option"
  import_autoviz_again :: "exn option"
  autoviz_report :: "file_content option \<Rightarrow> exc_class option"

text \<open>\<^verbatim>\<open>except ImportError\<close> catches \<^verbatim>\<open>ImportError\<close> and its subclass
  \<^verbatim>\<open>ModuleNotFoundError\<close>; \<^verbatim>\<open>except Exception\<close> catches every class here but
  \<^verbatim>\<open>KeyboardInterrupt\<close> and \<^verbatim>\<open>SystemExit\<close>.\<close>

definition is_ImportError :: "exc_class \<Rightarrow> bool" where
  "is_ImportError c = (c \<in> {ImportError, ModuleNotFoundError})"

definition is_Exception :: "exc_class \<Rightarrow> bool" where
  "is_Exception c = (c \<notin> {KeyboardInterrupt, SystemExit})"

text \<open>The inner \<^verbatim>\<open>try\<close> block: \<^verbatim>\<open>import subprocess\<close>, the call of \<^verbatim>\<open>pip\<close>, and the
  import again; the first exception ends it.\<close>

definition install_and_retry :: "exn option \<Rightarrow> exn option \<Rightarrow> exn option" where
  "install_and_retry pip_run import_again =
     (case pip_run of Some e \<Rightarrow> Some e | None \<Rightarrow> import_again)"

text \<open>The messages, as UTF-8 bytes (\<^verbatim>\<open>0xC3 0xA1\<close> is the letter a with an acute accent).\<close>

definition msg_not_installed :: "string \<Rightarrow> string" where
  "msg_not_installed lib =
     lib @ '' no est'' @ [CHR 0xC3, CHR 0xA1] @ '' instalado. Intentando instalarlo...''"

definition msg_install_failed :: "string \<Rightarrow> string \<Rightarrow> string" where
  "msg_install_failed lib e =
     ''No se pudo instalar '' @ lib @ ''. Por favor, inst'' @ [CHR 0xC3, CHR 0xA1]
       @ ''lalo manualmente. Error: '' @ e"

text \<open>The result of a method that returns \<^verbatim>\<open>None\<close> or raises.\<close>

datatype outcome = Returned | Raised exc_class

definition getAutomaticStatisticalEDA :: "env \<Rightarrow> inspector \<Rightarrow> world \<Rightarrow> outcome \<times> world" where
  "getAutomaticStatisticalEDA ev self w =
     (let report = (\<lambda>w'. case sweetviz_report ev (dataset self) of
                             Some c \<Rightarrow> (Raised c, w')
                           | None \<Rightarrow> (Returned, w'))
      in case import_sweetviz ev of
           None \<Rightarrow> report w
         | Some (c, m) \<Rightarrow>
             if is_ImportError c then
               (let w1 = print (msg_not_installed ''Sweetviz'') w
                in case install_and_retry (pip_install_sweetviz ev) (from_sweetviz_import_sv ev) of
                     Some (c', e) \<Rightarrow>
                       if is_Exception c'
                       then (Returned, print (msg_install_failed ''Sweetviz'' e) w1)
                       else (Raised c', w1)
                   | None \<Rightarrow> report w1)
             else (Raised c, w))"

definition getAutomaticGraphicalEDA :: "env \<Rightarrow> inspector \<Rightarrow> world \<Rightarrow> outcome \<times> world" where
  "getAutomaticGraphicalEDA ev self w =
     (let report = (\<lambda>w'. let csv_filename = ''temp_dataset.csv'';
                               w'' = to_csv (dataset self) csv_filename w'
                           in case autoviz_report ev (files w'' csv_filename) of
                                Some c \<Rightarrow> (Raised c, w'')
                              | None \<Rightarrow> (Returned, w''))
      in case import_autoviz ev of
           None \<Rightarrow> report w
         | Some (c, m) \<Rightarrow>
             if is_ImportError c then
               (let w1 = print (msg_not_installed ''Autoviz'') w
                in case install_and_retry (pip_install_autoviz ev) (import_autoviz_again ev) of
                     Some (c', e) \<Rightarrow>
                       if is_Exception c'
                       then (Returned, print (msg_install_failed ''Autoviz'' e) w1)
                       else (Raised c', w1)
                   | None \<Rightarrow> report w1)
             else (Raised c, w))"

text \<open>The library is at hand when the first import succeeds, or when it raises
  \<^verbatim>\<open>ImportError\<close> and the installation and the second import succeed.\<close>

definition autoviz_imported :: "env \<Rightarrow> bool" where
  "autoviz_imported ev =
     (case import_autoviz ev of
        None \<Rightarrow> True
      | Some (c, m) \<Rightarrow>
          is_ImportError c
          \<and> install_and_retry (pip_install_autoviz ev) (import_autoviz_again ev) = None)"

section \<open>The methods as operations on an instance\<close>

text \<open>
  \<^verbatim>\<open>describe()\<close> refuses a frame without columns; otherwise it describes the integer and
  floating-point columns, or all columns when there is none of these. The statistics are
  floating-point numbers and are not modelled: the model keeps the labels described.
\<close>

definition df_describe :: "dataframe \<Rightarrow> exc_class + string list" where
  "df_describe df =
     (if columns df = [] then Inl ValueError
      else let data = filter (\<lambda>c. dtype c \<in> {Int8, Int16, Int32, Int64, UInt8, UInt16, UInt32,
                                                UInt64, Float16, Float32, Float64}) (columns df)
           in if data = [] then Inr (df_columns df) else Inr (map name data))"

definition getStatistics :: "inspector \<Rightarrow> exc_class + string list" where
  "getStatistics self = df_describe (dataset self)"

text \<open>
  One constructor per method of the class. \<open>exec\<close> gives, for a call of the method on an
  instance in a world, whether the call returns or raises, and the instance and the world
  after it. The value returned is given by the function of the method's name above;
  \<^verbatim>\<open>getUniques\<close> and \<^verbatim>\<open>countUniques\<close> (\<^verbatim>\<open>nunique\<close> and \<^verbatim>\<open>value_counts\<close>, which read
  the dataset and build new objects) are embedded by their effect only: the counts and
  the text are not modelled. \<^verbatim>\<open>countUniques\<close> reads \<^verbatim>\<open>self.dataset[col]\<close> for every
  label; for a label that repeats this is a frame of several columns of one label, and
  its \<^verbatim>\<open>value_counts()\<close> raises \<^verbatim>\<open>ValueError\<close>.
\<close>

definition countUniques :: "inspector \<Rightarrow> exc_class + unit" where
  "countUniques self = (if distinct (getColumns self) then Inr () else Inl ValueError)"

datatype op =
    SetDescription string | GetDescription | GetShape | GetSize | GetHead | GetColumns
  | GetTypes | GetStatistics | GetNulls | Get_numeric_columns | GetBoxplots | GetUniques
  | CountUniques | GetHistograms int | Get_categorical_columns
  | Plot_bar_charts_categorical_columns | GetCorrelationMatrix
  | GetAutomaticStatisticalEDA | GetAutomaticGraphicalEDA

definition returns :: "exc_class + 'a \<Rightarrow> outcome" where
  "returns r = (case r of Inl e \<Rightarrow> Raised e | Inr v \<Rightarrow> Returned)"

definition show_grid :: "exc_class + axes_array \<Rightarrow> world \<Rightarrow> world" where
  "show_grid r w = (case r of Inl e \<Rightarrow> w | Inr axs \<Rightarrow> plt_show (Grid axs) w)"

definition show_figure :: "exc_class + figure \<Rightarrow> world \<Rightarrow> world" where
  "show_figure r w = (case r of Inl e \<Rightarrow> w | Inr fig \<Rightarrow> plt_show fig w)"

fun exec :: "env \<Rightarrow> op \<Rightarrow> inspector \<times> world \<Rightarrow> outcome \<times> inspector \<times> world" where
  "exec ev (SetDescription d) (self, w) = (Returned, setDescription self d, w)"
| "exec ev GetDescription (self, w) = (returns (getDescription self), self, w)"
| "exec ev GetShape (self, w) = (Returned, self, w)"
| "exec ev GetSize (self, w) = (Returned, self, w)"
| "exec ev GetHead (self, w) = (Returned, self, w)"
| "exec ev GetColumns (self, w) = (Returned, self, w)"
| "exec ev GetTypes (self, w) = (Returned, self, w)"
| "exec ev GetStatistics (self, w) = (returns (getStatistics self), self, w)"
| "exec ev GetNulls (self, w) = (Returned, self, w)"
| "exec ev Get_numeric_columns (self, w) = (Returned, self, w)"
| "exec ev GetBoxplots (self, w) =
     (returns (getBoxplots self), self, show_grid (getBoxplots self) w)"
| "exec ev GetUniques (self, w) = (Returned, self, w)"
| "exec ev CountUniques (self, w) = (returns (countUniques self), self, w)"
| "exec ev (GetHistograms nBins) (self, w) =
     (returns (getHistograms self nBins), self, show_grid (getHistograms self nBins) w)"
| "exec ev Get_categorical_columns (self, w) = (Returned, self, w)"
| "exec ev Plot_bar_charts_categorical_columns (self, w) =
     (returns (plot_bar_charts_categorical_columns self), self,
      show_grid (plot_bar_charts_categorical_columns self) w)"
| "exec ev GetCorrelationMatrix (self, w) =
     (returns (getCorrelationMatrix (pandas ev) self), self,
      show_figure (getCorrelationMatrix (pandas ev) self) w)"
| "exec ev GetAutomaticStatisticalEDA (self, w) =
     (case getAutomaticStatisticalEDA ev self w of (r, w') \<Rightarrow> (r, self, w'))"
| "exec ev GetAutomaticGraphicalEDA (self, w) =
     (case getAutomaticGraphicalEDA ev self w of (r, w') \<Rightarrow> (r, self, w'))"

text \<open>A sequence of calls on one instance; a call that raises leaves the instance to the
  next call.\<close>

fun run :: "env \<Rightarrow> op list \<Rightarrow> inspector \<times> world \<Rightarrow> inspector \<times> world" where
  "run ev [] st = st"
| "run ev (c # cs) st = run ev cs (snd (exec ev c st))"

definition is_SetDescription :: "op \<Rightarrow> bool" where
  "is_SetDescription c = (case c of SetDescription d \<Rightarrow> True | _ \<Rightarrow> False)"

text \<open>An environment in which neither library is installed and \<^verbatim>\<open>pip\<close> is not on the
  path, and an empty world.\<close>

definition bare_env :: env where
  "bare_env =
     \<lparr>pandas = From_2_0,
      import_sweetviz = Some (ModuleNotFoundError, ''No module named sweetviz''),
      pip_install_sweetviz = Some (FileNotFoundError, ''No such file or directory: pip''),
      from_sweetviz_import_sv = Some (ModuleNotFoundError, ''No module named sweetviz''),
      sweetviz_report = (\<lambda>df. None),
      import_autoviz = Some (ModuleNotFoundError, ''No module named autoviz''),
      pip_install_autoviz = None,
      import_autoviz_again = Some (ModuleNotFoundError, ''No module named autoviz''),
      autoviz_report = (\<lambda>f. None)\<rparr>"

definition empty_world :: world where
  "empty_world = \<lparr>files = Map.empty, stdout = [], shown = []\<rparr>"

text \<open>An environment in which the graphical report generator is installed, and a world
  in which the working directory already holds a file of the export's name.\<close>

definition ready_env :: env where
  "ready_env = bare_env\<lparr>import_autoviz := None\<rparr>"

definition old_world :: world where
  "old_world = empty_world\<lparr>files := [''temp_dataset.csv'' \<mapsto> Text ''old'']\<rparr>"

section \<open>Shape and size\<close>

lemma sum_list_const_length:
  "list_all (\<lambda>c. length (values c) = r) cs \<Longrightarrow> length (concat (map values cs)) = r * length cs"
  by (induction cs) simp_all

text \<open>
  Claim C4. For a dataset with \<open>R\<close> rows and \<open>C\<close> columns, \<^verbatim>\<open>getShape()\<close> is \<open>(R, C)\<close> and
  \<^verbatim>\<open>getSize()\<close> is \<open>R * C\<close>; in a well-formed frame that is the number of cells.
\<close>

theorem getShape_getSize:
  assumes "length (rows df) = R" and "length (columns df) = C"
  shows "getShape (init df) = (R, C) \<and> getSize (init df) = R * C
         \<and> (wf_frame df \<longrightarrow> getSize (init df) = length (concat (map values (columns df))))"
proof -
  have r: "length (index df) = R"
    using assms(1) by (simp add: rows_def)
  have "length (concat (map values (columns df))) = R * C" if "wf_frame df"
    using that assms(2) r sum_list_const_length[of "length (index df)" "columns df"]
    by (simp add: wf_frame_def)
  then show ?thesis
    using r assms(2) by (simp add: getShape_def getSize_def df_size_def df_shape_def init_def)
qed

theorem getShape_getSize_witness:
  "getShape (init example_frame) = (3, 2) \<and> getSize (init example_frame) = 3 * 2
   \<and> wf_frame example_frame
   \<and> getSize (init example_frame) = length (concat (map values (columns example_frame)))"
proof -
  have a: "length (rows example_frame) = 3"
    by (simp add: rows_def example_frame_def)
  have b: "length (columns example_frame) = 2"
    by (simp add: example_frame_def)
  have c: "wf_frame example_frame"
    by (simp add: wf_frame_def example_frame_def)
  show ?thesis
    using getShape_getSize [OF a b] c by blast
qed

section \<open>Missing values\<close>

lemma bool_sum_isna: "bool_sum (map (\<lambda>v. BoolV (isna v)) vs) = count_list vs NA"
  by (induction vs) (simp_all add: bool_sum_def isna_def)

lemma count_list_concat:
  "count_list (concat xss) a = sum_list (map (\<lambda>xs. count_list xs a) xss)"
  by (induction xss) simp_all

text \<open>
  Claim C5. \<^verbatim>\<open>getNulls()\<close> holds, for every column in column order, the column's label
  and the number of missing entries of that column; the counts add up to the number of
  missing values of the whole dataset.
\<close>

theorem getNulls_counts:
  "getNulls (init df) = map (\<lambda>c. (name c, count_list (values c) NA)) (columns df)
   \<and> sum_list (map snd (getNulls (init df))) = count_list (concat (map values (columns df))) NA"
proof -
  have a: "getNulls (init df) = map (\<lambda>c. (name c, count_list (values c) NA)) (columns df)"
    by (simp add: getNulls_def init_def df_sum_def df_isnull_def bool_sum_isna comp_def)
  have "sum_list (map snd (map (\<lambda>c. (name c, count_list (values c) NA)) (columns df)))
        = count_list (concat (map values (columns df))) NA"
    by (simp add: count_list_concat comp_def)
  with a show ?thesis by simp
qed

section \<open>The first rows\<close>

lemma row_at_head: "i < n \<Longrightarrow> row_at (df_head n df) i = row_at df i"
  by (simp add: row_at_def df_head_def comp_def)

lemma take_upt_min: "take n [0..<m] = [0..<min n m]"
  by (cases "n \<le> m") (simp_all add: min_def)

lemma take_min_length: "take (min n (length xs)) xs = take n xs"
  by (cases "n \<le> length xs") (simp_all add: min_def)

lemma rows_head: "rows (df_head n df) = take n (rows df)"
proof -
  have "rows (df_head n df) = map (row_at (df_head n df)) [0..<min n (length (index df))]"
    by (simp add: rows_def df_head_def min.commute)
  also have "\<dots> = map (row_at df) [0..<min n (length (index df))]"
    by (rule map_cong) (simp_all add: row_at_head)
  also have "\<dots> = take n (rows df)"
    by (simp add: rows_def take_map take_upt_min)
  finally show ?thesis .
qed

lemma wf_head: "wf_frame df \<Longrightarrow> wf_frame (df_head n df)"
  by (simp add: wf_frame_def df_head_def list_all_iff)

lemma values_head: "map values (columns (df_head n df)) = map (\<lambda>c. take n (values c)) (columns df)"
  by (simp add: df_head_def comp_def)

lemma wf_take_min:
  assumes "wf_frame df"
  shows "map (\<lambda>c. take n (values c)) (columns df)
         = map (\<lambda>c. take (min n (length (rows df))) (values c)) (columns df)"
proof (rule map_cong)
  fix c
  assume "c \<in> set (columns df)"
  then have "length (values c) = length (rows df)"
    using assms by (simp add: wf_frame_def list_all_iff rows_def)
  then show "take n (values c) = take (min n (length (rows df))) (values c)"
    using take_min_length [of n "values c"] by simp
qed simp

text \<open>
  Claim C10. For a dataset with \<open>R\<close> rows, \<^verbatim>\<open>getHead()\<close> is the frame of the first
  \<open>min 5 R\<close> rows in their order: its rows are the first \<open>min 5 R\<close> rows of the dataset,
  its index the first \<open>min 5 R\<close> index entries, its columns have the labels and dtypes of
  the dataset's columns, and every column holds the first five values of the dataset's
  column; when every column of the dataset holds one value per row, so does every
  column of the result, and these are the first \<open>min 5 R\<close> values. The model of
  \<^verbatim>\<open>getHead\<close> has no error branch, so a dataset of fewer than five rows gives all its
  rows.
\<close>

theorem getHead_first_rows:
  "rows (getHead (init df)) = take (min 5 (length (rows df))) (rows df)
   \<and> length (rows (getHead (init df))) = min 5 (length (rows df))
   \<and> index (getHead (init df)) = take (min 5 (length (rows df))) (index df)
   \<and> df_columns (getHead (init df)) = df_columns df
   \<and> df_dtypes (getHead (init df)) = df_dtypes df
   \<and> map values (columns (getHead (init df))) = map (\<lambda>c. take 5 (values c)) (columns df)
   \<and> (wf_frame df \<longrightarrow>
        wf_frame (getHead (init df))
        \<and> map values (columns (getHead (init df)))
            = map (\<lambda>c. take (min 5 (length (rows df))) (values c)) (columns df)
        \<and> list_all (\<lambda>c. length (values c) = min 5 (length (rows df)))
             (columns (getHead (init df))))"
proof -
  have r: "rows (getHead (init df)) = take 5 (rows df)"
    by (simp add: getHead_def init_def rows_head)
  have i: "index (getHead (init df)) = take 5 (index df)"
    by (simp add: getHead_def init_def df_head_def)
  have l: "length (rows df) = length (index df)"
    by (simp add: rows_def)
  have c: "df_columns (getHead (init df)) = df_columns df"
    by (simp add: getHead_def init_def df_columns_def df_head_def comp_def)
  have t: "df_dtypes (getHead (init df)) = df_dtypes df"
    by (simp add: getHead_def init_def df_dtypes_def df_head_def comp_def)
  have m1: "take (min 5 (length (rows df))) (rows df) = take 5 (rows df)"
    by (rule take_min_length)
  have m2: "take (min 5 (length (rows df))) (index df) = take 5 (index df)"
    unfolding l by (rule take_min_length)
  have v: "map values (columns (getHead (init df))) = map (\<lambda>c. take 5 (values c)) (columns df)"
    by (simp add: getHead_def init_def values_head)
  have w: "wf_frame (getHead (init df))
        \<and> map values (columns (getHead (init df)))
            = map (\<lambda>c. take (min 5 (length (rows df))) (values c)) (columns df)
        \<and> list_all (\<lambda>c. length (values c) = min 5 (length (rows df)))
             (columns (getHead (init df)))"
    if wf: "wf_frame df"
  proof -
    have w1: "wf_frame (getHead (init df))"
      using wf by (simp add: getHead_def init_def wf_head)
    have w2: "map values (columns (getHead (init df)))
            = map (\<lambda>c. take (min 5 (length (rows df))) (values c)) (columns df)"
      using v wf_take_min [OF wf, of 5] by simp
    have "length (index (getHead (init df))) = min 5 (length (rows df))"
      using i l by (simp add: min.commute)
    then have w3: "list_all (\<lambda>c. length (values c) = min 5 (length (rows df)))
             (columns (getHead (init df)))"
      using w1 by (simp add: wf_frame_def)
    show ?thesis
      using w1 w2 w3 by simp
  qed
  show ?thesis
    unfolding m1 m2 using r i c t v w by simp
qed

theorem getHead_first_rows_witness:
  "wf_frame seven_frame
   \<and> wf_frame (getHead (init seven_frame))
   \<and> length (rows (getHead (init seven_frame))) = 5
   \<and> index (getHead (init seven_frame)) = [0, 1, 2, 3, 4]
   \<and> map values (columns (getHead (init seven_frame)))
       = [[FloatV 1 0, FloatV 1 1, FloatV 3 0, FloatV 1 2, FloatV 5 0]]
   \<and> rows (getHead (init seven_frame))
       = [[FloatV 1 0], [FloatV 1 1], [FloatV 3 0], [FloatV 1 2], [FloatV 5 0]]"
proof -
  have wf: "wf_frame seven_frame"
    by (simp add: wf_frame_def seven_frame_def)
  have n: "length (rows seven_frame) = 7"
    by (simp add: rows_def seven_frame_def)
  have rs: "rows seven_frame
            = [[FloatV 1 0], [FloatV 1 1], [FloatV 3 0], [FloatV 1 2], [FloatV 5 0], [NA], [NA]]"
    by (simp add: rows_def row_at_def seven_frame_def upt_conv_Cons)
  have ix: "index seven_frame = [0, 1, 2, 3, 4, 5, 6]"
    by (simp add: seven_frame_def)
  have vs: "map (\<lambda>c. take 5 (values c)) (columns seven_frame)
            = [[FloatV 1 0, FloatV 1 1, FloatV 3 0, FloatV 1 2, FloatV 5 0]]"
    by (simp add: seven_frame_def)
  show ?thesis
    using wf getHead_first_rows [of seven_frame]
    by (simp add: n rs ix vs)
qed

section \<open>Numeric and categorical columns\<close>

lemma select_labels:
  "set (df_columns (select_dtypes ds df)) = name ` {c \<in> set (columns df). dtype c \<in> set ds}"
  by (simp add: df_columns_def select_dtypes_def)

lemma four_split:
  "d \<in> {Float64, Int64, Object, Category} \<Longrightarrow> d \<in> set [Float64, Int64] \<or> d \<in> set [Object, Category]"
  by auto

lemma two_disjoint:
  "d \<in> set [Float64, Int64] \<Longrightarrow> d \<in> set [Object, Category] \<Longrightarrow> False"
  by auto

text \<open>
  What the two selectors do. On a dataset whose columns all have one of the four dtypes
  that the two include lists name, they split the labels between them, and no column is
  selected by both. The results are label indexes: a label that a \<^verbatim>\<open>int64\<close> and an
  \<^verbatim>\<open>object\<close> column share is in both results, as \<open>wide_frame\<close> shows, and two results
  without a common label need distinct labels.
\<close>

lemma selectors_on_exact_dtypes:
  assumes "list_all (\<lambda>c. dtype c \<in> {Float64, Int64, Object, Category}) (columns df)"
  shows "set (getColumns (init df))
           = set (get_numeric_columns (init df)) \<union> set (get_categorical_columns (init df))
         \<and> set (columns (select_dtypes [Float64, Int64] df))
             \<inter> set (columns (select_dtypes [Object, Category] df)) = {}
         \<and> (distinct (getColumns (init df)) \<longrightarrow>
              set (get_numeric_columns (init df)) \<inter> set (get_categorical_columns (init df)) = {})"
proof -
  let ?num = "{c \<in> set (columns df). dtype c \<in> set [Float64, Int64]}"
  let ?cat = "{c \<in> set (columns df). dtype c \<in> set [Object, Category]}"
  have n: "set (get_numeric_columns (init df)) = name ` ?num"
    unfolding get_numeric_columns_def select_labels by (simp add: init_def)
  have c: "set (get_categorical_columns (init df)) = name ` ?cat"
    unfolding get_categorical_columns_def select_labels by (simp add: init_def)
  have a: "set (getColumns (init df)) = name ` set (columns df)"
    by (simp add: getColumns_def init_def df_columns_def)
  have all: "\<And>c. c \<in> set (columns df) \<Longrightarrow> dtype c \<in> {Float64, Int64, Object, Category}"
    using assms by (simp add: list_all_iff)
  have split: "set (columns df) = ?num \<union> ?cat"
    using all four_split by blast
  have disj: "?num \<inter> ?cat = {}"
    using two_disjoint by blast
  have cover: "set (getColumns (init df))
           = set (get_numeric_columns (init df)) \<union> set (get_categorical_columns (init df))"
    unfolding n c a image_Un [symmetric] using split by simp
  have cols: "set (columns (select_dtypes [Float64, Int64] df))
             \<inter> set (columns (select_dtypes [Object, Category] df)) = {}"
  proof -
    have "set (columns (select_dtypes [Float64, Int64] df)) = ?num"
      by (simp add: select_dtypes_def)
    moreover have "set (columns (select_dtypes [Object, Category] df)) = ?cat"
      by (simp add: select_dtypes_def)
    ultimately show ?thesis using disj by simp
  qed
  have labels: "set (get_numeric_columns (init df)) \<inter> set (get_categorical_columns (init df)) = {}"
    if d: "distinct (getColumns (init df))"
  proof -
    have inj: "inj_on name (set (columns df))"
      using d by (simp add: getColumns_def init_def df_columns_def distinct_map)
    have "name ` ?num \<inter> name ` ?cat = name ` (?num \<inter> ?cat)"
      by (rule inj_on_image_Int [OF inj, symmetric]) blast+
    then show ?thesis
      unfolding n c using disj by simp
  qed
  show ?thesis
    using cover cols labels by blast
qed

lemma selectors_on_example_frame:
  "set (getColumns (init example_frame))
     = set (get_numeric_columns (init example_frame))
       \<union> set (get_categorical_columns (init example_frame))
   \<and> set (columns (select_dtypes [Float64, Int64] example_frame))
       \<inter> set (columns (select_dtypes [Object, Category] example_frame)) = {}
   \<and> distinct (getColumns (init example_frame))
   \<and> set (get_numeric_columns (init example_frame))
       \<inter> set (get_categorical_columns (init example_frame)) = {}"
proof -
  have h: "list_all (\<lambda>c. dtype c \<in> {Float64, Int64, Object, Category}) (columns example_frame)"
    by (simp add: example_frame_def)
  have d: "distinct (getColumns (init example_frame))"
    by (simp add: example_frame_def getColumns_def init_def df_columns_def)
  show ?thesis
    using selectors_on_exact_dtypes [OF h] d by blast
qed

lemma repeated_label_in_both:
  "list_all (\<lambda>c. spec_numeric (dtype c) \<or> spec_categorical (dtype c)) (columns wide_frame)
   \<and> ''n'' \<in> set (getColumns (init wide_frame))
   \<and> ''n'' \<notin> set (get_numeric_columns (init wide_frame))
               \<union> set (get_categorical_columns (init wide_frame))
   \<and> ''a'' \<in> set (get_numeric_columns (init wide_frame))
               \<inter> set (get_categorical_columns (init wide_frame))"
  by (simp add: wide_frame_def spec_numeric_def spec_categorical_def getColumns_def
      get_numeric_columns_def get_categorical_columns_def init_def df_columns_def select_dtypes_def)

text \<open>
  Claim C3. In a dataset whose columns all have either a numeric (floating-point or
  integer) type or an object/categorical type, every column is in
  \<^verbatim>\<open>get_numeric_columns()\<close> or in \<^verbatim>\<open>get_categorical_columns()\<close>, and the two results share
  no column. \<^verbatim>\<open>get_numeric_columns\<close>, documented as returning the numeric columns of the
  dataset, selects the dtypes \<^verbatim>\<open>float64\<close> and \<^verbatim>\<open>int64\<close> only. On \<open>narrow_frame\<close>, whose
  labels are distinct and whose columns are numeric or object in the specification's
  sense, it returns no label: the \<^verbatim>\<open>uint64\<close> column \<^verbatim>\<open>u\<close> and the \<^verbatim>\<open>float32\<close> column
  \<^verbatim>\<open>f\<close> are in neither result, while \<^verbatim>\<open>getStatistics()\<close> describes exactly these two as
  the numeric columns.
\<close>

theorem numeric_columns_missed:
  "list_all (\<lambda>c. spec_numeric (dtype c) \<or> spec_categorical (dtype c)) (columns narrow_frame)
   \<and> distinct (getColumns (init narrow_frame))
   \<and> getColumns (init narrow_frame) = [''u'', ''f'', ''s'']
   \<and> get_numeric_columns (init narrow_frame) = []
   \<and> get_categorical_columns (init narrow_frame) = [''s'']
   \<and> ''u'' \<notin> set (get_numeric_columns (init narrow_frame))
               \<union> set (get_categorical_columns (init narrow_frame))
   \<and> ''f'' \<notin> set (get_numeric_columns (init narrow_frame))
               \<union> set (get_categorical_columns (init narrow_frame))
   \<and> getStatistics (init narrow_frame) = Inr [''u'', ''f'']"
  by (simp add: narrow_frame_def spec_numeric_def spec_categorical_def getColumns_def
      get_numeric_columns_def get_categorical_columns_def init_def df_columns_def
      select_dtypes_def getStatistics_def df_describe_def)

section \<open>The layout of the chart grids\<close>

lemma ceil3: "math_ceil_div n 3 = (n + 2) div 3"
proof -
  have "\<lceil>real n / real 3\<rceil> = \<lceil>of_int (int n) / (of_int 3 :: real)\<rceil>"
    by simp
  also have "\<dots> = - (- int n div 3)"
    by (rule ceiling_divide_eq_div)
  also have "\<dots> = int ((n + 2) div 3)"
    by simp
  finally show ?thesis
    by (simp add: math_ceil_div_def)
qed

lemma cell_index_unique:
  fixes i j i' j' C :: nat
  assumes "j < C" "j' < C"
  shows "(i' * C + j' = i * C + j) = (i' = i \<and> j' = j)"
proof
  assume e: "i' * C + j' = i * C + j"
  have "(i' * C + j') div C = i'" "(i * C + j) div C = i"
    using assms by simp_all
  then have "i' = i" using e by simp
  then show "i' = i \<and> j' = j" using e by simp
qed simp

lemma grid_after_nth:
  "i < R \<Longrightarrow> j < C \<Longrightarrow>
   grid_after mk vs R C m ! i ! j
     = (if i * C + j < m then final_axes mk vs (i * C + j) else blank_axes)"
  by (simp add: grid_after_def)

lemma grid_after_length: "length (grid_after mk vs R C m) = R"
  by (simp add: grid_after_def)

lemma grid_after_row_length: "i < R \<Longrightarrow> length (grid_after mk vs R C m ! i) = C"
  by (simp add: grid_after_def)

lemma grid_after_update:
  assumes "i < R" "j < C"
  shows "(grid_after mk vs R C (i * C + j))
            [i := (grid_after mk vs R C (i * C + j) ! i)[j := final_axes mk vs (i * C + j)]]
         = grid_after mk vs R C (Suc (i * C + j))"
proof (rule nth_equalityI)
  show "length ((grid_after mk vs R C (i * C + j))
            [i := (grid_after mk vs R C (i * C + j) ! i)[j := final_axes mk vs (i * C + j)]])
        = length (grid_after mk vs R C (Suc (i * C + j)))"
    by (simp add: grid_after_length)
next
  fix i'
  assume "i' < length ((grid_after mk vs R C (i * C + j))
            [i := (grid_after mk vs R C (i * C + j) ! i)[j := final_axes mk vs (i * C + j)]])"
  then have i': "i' < R" by (simp add: grid_after_length)
  show "(grid_after mk vs R C (i * C + j))
            [i := (grid_after mk vs R C (i * C + j) ! i)[j := final_axes mk vs (i * C + j)]] ! i'
        = grid_after mk vs R C (Suc (i * C + j)) ! i'"
  proof (rule nth_equalityI)
    show "length ((grid_after mk vs R C (i * C + j))
            [i := (grid_after mk vs R C (i * C + j) ! i)[j := final_axes mk vs (i * C + j)]] ! i')
          = length (grid_after mk vs R C (Suc (i * C + j)) ! i')"
      using i' assms by (cases "i' = i") (simp_all add: grid_after_length grid_after_row_length)
  next
    fix j'
    assume "j' < length ((grid_after mk vs R C (i * C + j))
            [i := (grid_after mk vs R C (i * C + j) ! i)[j := final_axes mk vs (i * C + j)]] ! i')"
    then have j': "j' < C"
      using i' assms by (cases "i' = i") (simp_all add: grid_after_length grid_after_row_length)
    have u: "(i' * C + j' = i * C + j) = (i' = i \<and> j' = j)"
      using cell_index_unique [OF assms(2) j'] .
    have lt: "(i' * C + j' < Suc (i * C + j)) = (i' * C + j' < i * C + j \<or> (i' = i \<and> j' = j))"
      using u by auto
    show "(grid_after mk vs R C (i * C + j))
            [i := (grid_after mk vs R C (i * C + j) ! i)[j := final_axes mk vs (i * C + j)]] ! i' ! j'
          = grid_after mk vs R C (Suc (i * C + j)) ! i' ! j'"
    proof (cases "i' = i")
      case True
      show ?thesis
      proof (cases "j' = j")
        case True
        with \<open>i' = i\<close> assms show ?thesis
          by (simp add: grid_after_length grid_after_row_length grid_after_nth)
      next
        case False
        with \<open>i' = i\<close> assms j' lt show ?thesis
          by (simp add: grid_after_length grid_after_row_length grid_after_nth)
      qed
    next
      case False
      with assms i' j' lt show ?thesis
        by (simp add: grid_after_length grid_after_nth)
    qed
  qed
qed


lemma final_axes_drawn:
  "k < length vs \<Longrightarrow>
     final_axes mk vs k = blank_axes\<lparr>drawn := Some (mk (vs ! k)), title := Some (vs ! k)\<rparr>"
  by (simp add: blank_axes_def final_axes_def)

lemma final_axes_off:
  "\<not> k < length vs \<Longrightarrow> final_axes mk vs k = blank_axes\<lparr>axis_on := False\<rparr>"
  by (simp add: blank_axes_def final_axes_def)

lemma plot_cell_step:
  assumes "i < R" "j < C"
  shows "plot_cell mk vs i j (Axes2D (grid_after mk vs R C (i * C + j)), min (length vs) (i * C + j))
         = Inr (Axes2D (grid_after mk vs R C (Suc (i * C + j))),
                min (length vs) (Suc (i * C + j)))"
proof -
  let ?m = "i * C + j"
  let ?g = "grid_after mk vs R C ?m"
  have get: "axs_get (Axes2D ?g) i j = Inr blank_axes"
    using assms by (simp add: grid_after_length grid_after_row_length grid_after_nth)
  show ?thesis
  proof (cases "?m < length vs")
    case True
    then have vi: "min (length vs) ?m = ?m" "min (length vs) (Suc ?m) = Suc ?m"
      by simp_all
    show ?thesis
      unfolding plot_cell_def vi
      using True get grid_after_update [OF assms, of mk vs]
      by (simp add: final_axes_drawn Let_def)
  next
    case False
    then have vi: "min (length vs) ?m = length vs" "min (length vs) (Suc ?m) = length vs"
      by simp_all
    show ?thesis
      unfolding plot_cell_def vi
      using False get grid_after_update [OF assms, of mk vs]
      by (simp add: final_axes_off)
  qed
qed

lemma plot_row_step:
  assumes "i < R" "j \<le> C"
  shows "plot_row mk vs i [j..<C] (Axes2D (grid_after mk vs R C (i * C + j)), min (length vs) (i * C + j))
         = Inr (Axes2D (grid_after mk vs R C (Suc i * C)), min (length vs) (Suc i * C))"
  using assms(2)
proof (induction rule: inc_induct)
  case base
  show ?case by (simp add: add.commute)
next
  case (step n)
  have "[n..<C] = n # [Suc n..<C]"
    using step.hyps(2) by (simp add: upt_conv_Cons)
  then show ?case
    using plot_cell_step [OF assms(1) step.hyps(2), of mk vs] step.IH by simp
qed

lemma plot_rows_step:
  assumes "i \<le> R"
  shows "plot_rows mk vs C [i..<R] (Axes2D (grid_after mk vs R C (i * C)), min (length vs) (i * C))
         = Inr (Axes2D (grid_after mk vs R C (R * C)), min (length vs) (R * C))"
  using assms
proof (induction rule: inc_induct)
  case base
  show ?case by simp
next
  case (step n)
  have "[n..<R] = n # [Suc n..<R]"
    using step.hyps(2) by (simp add: upt_conv_Cons)
  then show ?case
    using plot_row_step [of n R 0 C mk vs] step.hyps(2) step.IH by simp
qed

lemma grid_after_0: "grid_after mk vs R C 0 = replicate R (replicate C blank_axes)"
  by (simp add: grid_after_def map_replicate_const)

lemma grid_after_all: "grid_after mk vs R C (R * C) = filled_grid mk vs R C"
proof -
  have "i * C + j < R * C" if "i < R" "j < C" for i j
  proof -
    have "i * C + j < Suc i * C" using that by simp
    also have "\<dots> \<le> R * C" using that by (simp add: Suc_leI mult_le_mono1 del: mult_Suc)
    finally show ?thesis .
  qed
  then show ?thesis
    by (simp add: grid_after_def filled_grid_def)
qed

lemma plot_rows_2d:
  "plot_rows mk vs C [0..<R] (Axes2D (replicate R (replicate C blank_axes)), 0)
   = Inr (Axes2D (filled_grid mk vs R C), min (length vs) (R * C))"
  using plot_rows_step [of 0 R mk vs C] by (simp add: grid_after_0 grid_after_all)

lemma chart_grid_many:
  assumes "4 \<le> length vs"
  shows "chart_grid mk vs = Inr (Axes2D (filled_grid mk vs (math_ceil_div (length vs) 3) 3))"
proof -
  have "2 \<le> math_ceil_div (length vs) 3"
    using assms by (simp add: ceil3)
  then show ?thesis
    by (simp add: chart_grid_def plt_subplots_def plot_rows_2d)
qed

lemma chart_grid_none: "chart_grid mk [] = Inl ValueError"
  by (simp add: chart_grid_def plt_subplots_def ceil3)

lemma chart_grid_few:
  assumes "1 \<le> length vs" "length vs \<le> 3"
  shows "chart_grid mk vs = Inl IndexError"
proof -
  have r: "math_ceil_div (length vs) 3 = 1"
    using assms by (simp add: ceil3)
  show ?thesis
    using assms(1) by (simp add: chart_grid_def r plt_subplots_def upt_conv_Cons plot_cell_def)
qed


lemma concat_filled_grid:
  "concat (filled_grid mk vs R C) = map (final_axes mk vs) [0..<R * C]"
proof (induction R)
  case 0
  show ?case by (simp add: filled_grid_def)
next
  case (Suc R)
  have row: "map (\<lambda>j. final_axes mk vs (R * C + j)) [0..<C] = map (final_axes mk vs) [R * C..<R * C + C]"
  proof -
    have "map (final_axes mk vs) [R * C..<R * C + C]
          = map (final_axes mk vs) (map (\<lambda>j. j + R * C) [0..<C])"
      by (simp only: map_add_upt add.commute)
    then show ?thesis by (simp add: comp_def add.commute)
  qed
  have "concat (filled_grid mk vs (Suc R) C)
        = concat (filled_grid mk vs R C) @ map (\<lambda>j. final_axes mk vs (R * C + j)) [0..<C]"
    by (simp add: filled_grid_def)
  also have "\<dots> = map (final_axes mk vs) ([0..<R * C] @ [R * C..<R * C + C])"
    using Suc.IH row by simp
  also have "[0..<R * C] @ [R * C..<R * C + C] = [0..<Suc R * C]"
    using upt_add_eq_append [of 0 "R * C" C] by (simp add: add.commute)
  finally show ?case .
qed

lemma filter_drawn_final:
  assumes "length vs \<le> M"
  shows "filter (\<lambda>a. drawn a \<noteq> None) (map (final_axes mk vs) [0..<M])
         = map (\<lambda>v. \<lparr>drawn = Some (mk v), title = Some v, axis_on = True\<rparr>) vs"
proof -
  have split: "[0..<M] = [0..<length vs] @ [length vs..<M]"
    using assms upt_add_eq_append [of 0 "length vs" "M - length vs"] by simp
  have a: "filter (\<lambda>a. drawn a \<noteq> None) (map (final_axes mk vs) [0..<length vs])
           = map (final_axes mk vs) [0..<length vs]"
    by (rule filter_True) (auto simp: final_axes_def)
  have b: "filter (\<lambda>a. drawn a \<noteq> None) (map (final_axes mk vs) [length vs..<M]) = []"
    by (rule filter_False) (auto simp: final_axes_def)
  have c: "map (final_axes mk vs) [0..<length vs]
           = map (\<lambda>v. \<lparr>drawn = Some (mk v), title = Some v, axis_on = True\<rparr>) vs"
    by (rule nth_equalityI) (simp_all add: final_axes_def)
  show ?thesis
    unfolding split using a b c by simp
qed

lemma filter_off_final:
  assumes "length vs \<le> M"
  shows "filter (\<lambda>a. \<not> axis_on a) (map (final_axes mk vs) [0..<M])
         = replicate (M - length vs) \<lparr>drawn = None, title = None, axis_on = False\<rparr>"
proof -
  have split: "[0..<M] = [0..<length vs] @ [length vs..<M]"
    using assms upt_add_eq_append [of 0 "length vs" "M - length vs"] by simp
  have a: "filter (\<lambda>a. \<not> axis_on a) (map (final_axes mk vs) [0..<length vs]) = []"
    by (rule filter_False) (auto simp: final_axes_def)
  have b: "filter (\<lambda>a. \<not> axis_on a) (map (final_axes mk vs) [length vs..<M])
           = map (final_axes mk vs) [length vs..<M]"
    by (rule filter_True) (auto simp: final_axes_def)
  have c: "map (final_axes mk vs) [length vs..<M]
           = replicate (M - length vs) \<lparr>drawn = None, title = None, axis_on = False\<rparr>"
    by (rule nth_equalityI) (simp_all add: final_axes_def)
  show ?thesis
    unfolding split using a b c by simp
qed

lemma chart_grid_layout:
  assumes "4 \<le> length vs"
  shows "\<exists>g. chart_grid mk vs = Inr (Axes2D g)
           \<and> length g = math_ceil_div (length vs) 3
           \<and> list_all (\<lambda>r. length r = 3) g
           \<and> filter (\<lambda>a. drawn a \<noteq> None) (concat g)
               = map (\<lambda>v. \<lparr>drawn = Some (mk v), title = Some v, axis_on = True\<rparr>) vs
           \<and> filter (\<lambda>a. \<not> axis_on a) (concat g)
               = replicate (3 * math_ceil_div (length vs) 3 - length vs)
                   \<lparr>drawn = None, title = None, axis_on = False\<rparr>"
proof -
  let ?R = "math_ceil_div (length vs) 3"
  let ?g = "filled_grid mk vs ?R 3"
  have le: "length vs \<le> ?R * 3"
    by (simp add: ceil3)
  have 1: "chart_grid mk vs = Inr (Axes2D ?g)"
    using assms by (rule chart_grid_many)
  have 2: "length ?g = ?R"
    by (simp add: filled_grid_def)
  have 3: "list_all (\<lambda>r. length r = 3) ?g"
    by (simp add: filled_grid_def list_all_iff)
  have 4: "filter (\<lambda>a. drawn a \<noteq> None) (concat ?g)
               = map (\<lambda>v. \<lparr>drawn = Some (mk v), title = Some v, axis_on = True\<rparr>) vs"
    unfolding concat_filled_grid using le by (rule filter_drawn_final)
  have 5: "filter (\<lambda>a. \<not> axis_on a) (concat ?g)
               = replicate (3 * ?R - length vs) \<lparr>drawn = None, title = None, axis_on = False\<rparr>"
    unfolding concat_filled_grid using filter_off_final [OF le, of mk] by (simp add: mult.commute)
  show ?thesis
    using 1 2 3 4 5 by blast
qed

text \<open>
  Claim C1 says that for every number \<open>N\<close> of eligible columns the charting operations
  lay out \<open>ceil(N/3)\<close> rows of three cells and complete without error. The lemmas above
  give what the loops do: with four or more columns, and every chart drawn without an
  exception, the grid is as the claim says (\<open>chart_grid_layout\<close>); with one to three columns the grid has one row,
  \<^verbatim>\<open>plt.subplots\<close> returns a one-dimensional array, and the first \<^verbatim>\<open>axs[i, j]\<close> raises
  \<^verbatim>\<open>IndexError\<close> (\<open>chart_grid_few\<close>); with no column \<^verbatim>\<open>plt.subplots(0, 3)\<close> raises
  \<^verbatim>\<open>ValueError\<close> (\<open>chart_grid_none\<close>). On the dataset of the specification's example,
  with one numeric and one categorical column, all three operations fail.
\<close>

theorem chart_grid_example_fails:
  "getBoxplots (init example_frame) = Inl IndexError
   \<and> getHistograms (init example_frame) 10 = Inl IndexError
   \<and> plot_bar_charts_categorical_columns (init example_frame) = Inl IndexError
   \<and> getBoxplots (init \<lparr>index = [], columns = []\<rparr>) = Inl ValueError"
proof -
  have n: "get_numeric_columns (init example_frame) = [''a'']"
    by (simp add: get_numeric_columns_def init_def example_frame_def select_dtypes_def
        df_columns_def)
  have c: "get_categorical_columns (init example_frame) = [''b'']"
    by (simp add: get_categorical_columns_def init_def example_frame_def select_dtypes_def
        df_columns_def)
  have e: "get_numeric_columns (init \<lparr>index = [], columns = []\<rparr>) = []"
    by (simp add: get_numeric_columns_def init_def select_dtypes_def df_columns_def)
  show ?thesis
    unfolding getBoxplots_def getHistograms_def plot_bar_charts_categorical_columns_def n c e
    by (simp add: chart_grid_few chart_grid_none)
qed

section \<open>The correlation matrix on a dataset with a text column\<close>

lemma not_text_convertible: "\<not> is_text v \<Longrightarrow> float_convertible v"
  by (cases v) simp_all

lemma correlation_before_2_0:
  assumes "list_all typed_column (columns df)"
  shows "getCorrelationMatrix Before_2_0 (init df) = sns_heatmap (df_columns (get_numeric_data df))"
proof -
  have "list_all float_convertible (values c)"
    if "c \<in> set (columns (get_numeric_data df))" for c
  proof -
    have "c \<in> set (columns df)" "dtype c \<notin> {Object, Category}"
      using that by (auto simp: get_numeric_data_def)
    then have "list_all (\<lambda>v. \<not> is_text v) (values c)"
      using assms by (auto simp: list_all_iff typed_column_def)
    then show ?thesis
      using not_text_convertible by (auto simp: list_all_iff)
  qed
  then have "list_all (\<lambda>c. list_all float_convertible (values c)) (columns (get_numeric_data df))"
    by (simp add: list_all_iff)
  then show ?thesis
    by (simp add: getCorrelationMatrix_def corr_def corr_default_numeric_only_def init_def)
qed

lemma correlation_from_2_0:
  assumes "c \<in> set (columns df)" and "StrV s \<in> set (values c)" and "\<not> py_float_reads s"
    and "ascii_text s"
  shows "getCorrelationMatrix From_2_0 (init df) = Inl ValueError"
proof -
  have "\<not> float_convertible (StrV s)"
    using assms(3) by simp
  then have "\<not> list_all float_convertible (values c)"
    using assms(2) by (auto simp: list_all_iff simp del: float_convertible.simps)
  then have "\<not> list_all (\<lambda>c. list_all float_convertible (values c)) (columns df)"
    using assms(1) by (auto simp: list_all_iff)
  then show ?thesis
    by (simp add: getCorrelationMatrix_def corr_def corr_default_numeric_only_def init_def)
qed

text \<open>
  Claim C6 says that \<^verbatim>\<open>getCorrelationMatrix()\<close> correlates the numeric columns and
  succeeds when the dataset also has non-numeric columns. The method passes the whole
  dataset to \<^verbatim>\<open>corr()\<close>. With pandas from 2.0 on, on the dataset of the specification's
  example, the conversion of column \<^verbatim>\<open>b\<close> to floats raises \<^verbatim>\<open>ValueError\<close>
  (\<open>correlation_from_2_0\<close> is the case of any ASCII text that \<^verbatim>\<open>float()\<close> does not
  read; before 2.0 the text columns were dropped, \<open>correlation_before_2_0\<close>).
\<close>

theorem correlation_example_fails:
  "getCorrelationMatrix From_2_0 (init example_frame) = Inl ValueError"
  by (simp add: getCorrelationMatrix_def corr_def corr_default_numeric_only_def init_def
      example_frame_def py_float_reads_def strip_def is_space_def drop_sign_def lower_def
      float_number_def digitpart_def is_digit_def)

section \<open>The automatic reports when the library cannot be imported\<close>

lemma msg_install_failed_text: "msg_install_failed lib e = msg_install_failed lib [] @ e"
  by (simp add: msg_install_failed_def)

text \<open>
  Claim C7. For both automatic reports: when the import raises \<^verbatim>\<open>ImportError\<close> (so
  that the installation is tried) and the installation and second import raise an
  exception of class \<^verbatim>\<open>Exception\<close> with text \<open>e\<close>, the call returns, and what it has
  printed is the notice that the library is missing and the message that ends with \<open>e\<close>;
  files and figures are as before.
\<close>

theorem auto_eda_degrades:
  "(import_sweetviz ev = Some (c1, m1) \<and> is_ImportError c1
      \<and> install_and_retry (pip_install_sweetviz ev) (from_sweetviz_import_sv ev) = Some (c2, e)
      \<and> is_Exception c2
    \<longrightarrow> getAutomaticStatisticalEDA ev self w
          = (Returned, w\<lparr>stdout := stdout w @ [msg_not_installed ''Sweetviz'',
                                                  msg_install_failed ''Sweetviz'' [] @ e]\<rparr>))
   \<and> (import_autoviz ev = Some (c1, m1) \<and> is_ImportError c1
      \<and> install_and_retry (pip_install_autoviz ev) (import_autoviz_again ev) = Some (c2, e)
      \<and> is_Exception c2
    \<longrightarrow> getAutomaticGraphicalEDA ev self w
          = (Returned, w\<lparr>stdout := stdout w @ [msg_not_installed ''Autoviz'',
                                                  msg_install_failed ''Autoviz'' [] @ e]\<rparr>))"
  by (simp add: getAutomaticStatisticalEDA_def getAutomaticGraphicalEDA_def print_def
      msg_install_failed_text [symmetric])

theorem auto_eda_degrades_witness:
  "getAutomaticStatisticalEDA bare_env (init example_frame) empty_world
     = (Returned, empty_world\<lparr>stdout :=
          [msg_not_installed ''Sweetviz'',
           msg_install_failed ''Sweetviz'' [] @ ''No such file or directory: pip'']\<rparr>)
   \<and> getAutomaticGraphicalEDA bare_env (init example_frame) empty_world
     = (Returned, empty_world\<lparr>stdout :=
          [msg_not_installed ''Autoviz'',
           msg_install_failed ''Autoviz'' [] @ ''No module named autoviz'']\<rparr>)"
proof -
  have s: "import_sweetviz bare_env = Some (ModuleNotFoundError, ''No module named sweetviz'')
           \<and> is_ImportError ModuleNotFoundError
           \<and> install_and_retry (pip_install_sweetviz bare_env) (from_sweetviz_import_sv bare_env)
               = Some (FileNotFoundError, ''No such file or directory: pip'')
           \<and> is_Exception FileNotFoundError"
    by (simp add: bare_env_def is_ImportError_def is_Exception_def install_and_retry_def)
  have a: "import_autoviz bare_env = Some (ModuleNotFoundError, ''No module named autoviz'')
           \<and> is_ImportError ModuleNotFoundError
           \<and> install_and_retry (pip_install_autoviz bare_env) (import_autoviz_again bare_env)
               = Some (ModuleNotFoundError, ''No module named autoviz'')
           \<and> is_Exception ModuleNotFoundError"
    by (simp add: bare_env_def is_ImportError_def is_Exception_def install_and_retry_def)
  have e: "stdout empty_world = []"
    by (simp add: empty_world_def)
  show ?thesis
    using s a
      auto_eda_degrades [of bare_env ModuleNotFoundError "''No module named sweetviz''"
        FileNotFoundError "''No such file or directory: pip''" "init example_frame" empty_world]
      auto_eda_degrades [of bare_env ModuleNotFoundError "''No module named autoviz''"
        ModuleNotFoundError "''No module named autoviz''" "init example_frame" empty_world]
    by (simp add: e)
qed

section \<open>The file of the graphical report\<close>

text \<open>
  Claim C9. Whenever \<^verbatim>\<open>getAutomaticGraphicalEDA()\<close> has the library imported, the files
  of the working directory after the call are the files before it with
  \<^verbatim>\<open>temp_dataset.csv\<close> holding the dataset's labels and rows: the name is fixed, what the
  file held before is replaced, and the file is there when the call ends, whether the
  report generator returns or raises.
\<close>

theorem graphical_eda_writes_csv:
  assumes "autoviz_imported ev"
  shows "files (snd (getAutomaticGraphicalEDA ev self w))
         = (files w)(''temp_dataset.csv'' \<mapsto> Csv (df_columns (dataset self)) (rows (dataset self)))"
  using assms
  by (auto simp: autoviz_imported_def getAutomaticGraphicalEDA_def to_csv_def print_def Let_def
      split: option.splits prod.splits if_splits)

theorem graphical_eda_writes_csv_witness:
  "autoviz_imported ready_env
   \<and> files (snd (getAutomaticGraphicalEDA ready_env (init example_frame) old_world))
       = [''temp_dataset.csv'' \<mapsto>
            Csv [''a'', ''b''] [[IntV 1, StrV ''x''], [IntV 2, StrV ''y''], [IntV 2, StrV ''y'']]]"
proof -
  have i: "autoviz_imported ready_env"
    by (simp add: autoviz_imported_def ready_env_def bare_env_def)
  have r: "rows example_frame = [[IntV 1, StrV ''x''], [IntV 2, StrV ''y''], [IntV 2, StrV ''y'']]"
    by (simp add: rows_def row_at_def example_frame_def upt_conv_Cons)
  have c: "df_columns example_frame = [''a'', ''b'']"
    by (simp add: df_columns_def example_frame_def)
  show ?thesis
    using i graphical_eda_writes_csv [OF i, of "init example_frame" old_world]
    by (simp add: init_def r c old_world_def empty_world_def)
qed

section \<open>What the methods leave unchanged\<close>

lemma exec_dataset: "dataset (fst (snd (exec ev c (self, w)))) = dataset self"
  by (cases c) (simp_all add: setDescription_def case_prod_beta)

lemma statistical_files: "files (snd (getAutomaticStatisticalEDA ev self w)) = files w"
  by (simp add: getAutomaticStatisticalEDA_def print_def Let_def split: option.splits prod.splits)

lemma graphical_files:
  "p \<noteq> ''temp_dataset.csv'' \<Longrightarrow> files (snd (getAutomaticGraphicalEDA ev self w)) p = files w p"
  by (simp add: getAutomaticGraphicalEDA_def print_def to_csv_def Let_def split: option.splits prod.splits)

lemma show_grid_files: "files (show_grid r w) = files w"
  by (simp add: show_grid_def plt_show_def split: sum.splits)

lemma show_figure_files: "files (show_figure r w) = files w"
  by (simp add: show_figure_def plt_show_def split: sum.splits)

lemma exec_files:
  "c \<noteq> GetAutomaticGraphicalEDA \<Longrightarrow> files (snd (snd (exec ev c (self, w)))) = files w"
  using statistical_files [of ev self w]
  by (cases c) (simp_all add: show_grid_files show_figure_files case_prod_beta)

lemma exec_other_files:
  "p \<noteq> ''temp_dataset.csv'' \<Longrightarrow> files (snd (snd (exec ev c (self, w)))) p = files w p"
  using statistical_files [of ev self w] graphical_files [of p ev self w]
  by (cases c) (simp_all add: show_grid_files show_figure_files case_prod_beta)

lemma exec_description:
  "\<not> is_SetDescription c \<Longrightarrow> description (fst (snd (exec ev c (self, w)))) = description self"
  by (cases c) (simp_all add: is_SetDescription_def case_prod_beta)

lemma run_dataset: "dataset (fst (run ev cs st)) = dataset (fst st)"
proof (induction cs arbitrary: st)
  case Nil
  show ?case by simp
next
  case (Cons c cs)
  obtain self w where st: "st = (self, w)" by (cases st)
  have "dataset (fst (snd (exec ev c st))) = dataset (fst st)"
    unfolding st using exec_dataset [of ev c self w] by simp
  then show ?case
    using Cons.IH [of "snd (exec ev c st)"] by simp
qed

lemma run_description:
  "list_all (\<lambda>c. \<not> is_SetDescription c) cs \<Longrightarrow> description (fst (run ev cs st)) = description (fst st)"
proof (induction cs arbitrary: st)
  case Nil
  show ?case by simp
next
  case (Cons c cs)
  obtain self w where st: "st = (self, w)" by (cases st)
  have "description (fst (snd (exec ev c st))) = description (fst st)"
    unfolding st using exec_description [of c ev self w] Cons.prems by simp
  then show ?case
    using Cons.IH [of "snd (exec ev c st)"] Cons.prems by simp
qed

text \<open>
  Claim C8. No method changes the dataset of the instance, in one call or in a sequence
  of calls; no method but \<^verbatim>\<open>getAutomaticGraphicalEDA\<close> changes a file, and that one
  changes no file but \<^verbatim>\<open>temp_dataset.csv\<close>.
\<close>

theorem dataset_unchanged:
  "dataset (fst (snd (exec ev c (self, w)))) = dataset self
   \<and> dataset (fst (run ev cs (self, w))) = dataset self
   \<and> (c \<noteq> GetAutomaticGraphicalEDA \<longrightarrow> files (snd (snd (exec ev c (self, w)))) = files w)
   \<and> (p \<noteq> ''temp_dataset.csv'' \<longrightarrow> files (snd (snd (exec ev c (self, w)))) p = files w p)"
  using exec_dataset [of ev c self w] run_dataset [of ev cs "(self, w)"]
    exec_files [of c ev self w] exec_other_files [of p ev c self w]
  by simp

theorem dataset_unchanged_witness:
  "dataset (fst (snd (exec ready_env GetCorrelationMatrix (init example_frame, old_world))))
     = example_frame
   \<and> dataset (fst (run ready_env [SetDescription ''x'', GetAutomaticGraphicalEDA, GetBoxplots]
                        (init example_frame, old_world))) = example_frame
   \<and> GetCorrelationMatrix \<noteq> GetAutomaticGraphicalEDA
   \<and> files (snd (snd (exec ready_env GetCorrelationMatrix (init example_frame, old_world))))
       = files old_world
   \<and> ''notes.txt'' \<noteq> ''temp_dataset.csv''
   \<and> files (snd (snd (exec ready_env GetCorrelationMatrix (init example_frame, old_world))))
         ''notes.txt'' = None"
proof -
  have d: "dataset (init example_frame) = example_frame"
    by (simp add: init_def)
  have n: "files old_world ''notes.txt'' = None"
    by (simp add: old_world_def)
  show ?thesis
    using dataset_unchanged [of ready_env GetCorrelationMatrix "init example_frame" old_world
        "[SetDescription ''x'', GetAutomaticGraphicalEDA, GetBoxplots]" "''notes.txt''"]
    by (simp add: d n)
qed

section \<open>The description\<close>

text \<open>
  Claim C2. On an instance as \<^verbatim>\<open>__init__\<close> leaves it, and after any calls other than
  \<^verbatim>\<open>setDescription\<close>, \<^verbatim>\<open>getDescription()\<close> fails with \<^verbatim>\<open>AttributeError\<close>; after
  \<^verbatim>\<open>setDescription(x)\<close> on any instance it returns \<open>x\<close>.
\<close>

theorem description_get_set:
  "getDescription (init df) = Inl AttributeError
   \<and> getDescription (setDescription self x) = Inr x
   \<and> (list_all (\<lambda>c. \<not> is_SetDescription c) cs
        \<longrightarrow> getDescription (fst (run ev cs (init df, w))) = Inl AttributeError)"
proof -
  have "getDescription (fst (run ev cs (init df, w))) = Inl AttributeError"
    if "list_all (\<lambda>c. \<not> is_SetDescription c) cs"
    using run_description [OF that, of ev "(init df, w)"]
    by (simp add: getDescription_def init_def)
  then show ?thesis
    by (simp add: getDescription_def init_def setDescription_def)
qed

theorem description_get_set_witness:
  "getDescription (init example_frame) = Inl AttributeError
   \<and> getDescription (setDescription (init example_frame) ''x'') = Inr ''x''
   \<and> list_all (\<lambda>c. \<not> is_SetDescription c) [GetShape, GetBoxplots, GetAutomaticGraphicalEDA]
   \<and> getDescription (fst (run bare_env [GetShape, GetBoxplots, GetAutomaticGraphicalEDA]
                               (init example_frame, empty_world))) = Inl AttributeError"
proof -
  have l: "list_all (\<lambda>c. \<not> is_SetDescription c) [GetShape, GetBoxplots, GetAutomaticGraphicalEDA]"
    by (simp add: is_SetDescription_def)
  show ?thesis
    using l description_get_set [of example_frame "init example_frame" "''x''"
        "[GetShape, GetBoxplots, GetAutomaticGraphicalEDA]" bare_env empty_world]
    by blast
qed

end
